theory Spec2Isabelle
  imports Complex_Main
begin

section \<open>Strings\<close>

text \<open>
  The source compares strings after \<^verbatim>\<open>toLowerCase()\<close>. A string is a list of
  8-bit characters here; the letters \<^verbatim>\<open>A\<close> to \<^verbatim>\<open>Z\<close> (codes 65 to 90) are mapped to
  \<^verbatim>\<open>a\<close> to \<^verbatim>\<open>z\<close> (codes 97 to 122) and every other character is kept. Every
  literal the source compares with is ASCII; the lower-case form of a character outside
  ASCII is not modelled.
\<close>

definition toLowerCase_char :: "char \<Rightarrow> char" where
  "toLowerCase_char c =
     (let n = (of_char c :: nat) in if 65 \<le> n \<and> n \<le> 90 then char_of (n + 32) else c)"

definition toLowerCase :: "string \<Rightarrow> string" where
  "toLowerCase s = map toLowerCase_char s"

text \<open>
  Stating "any case variant of a name" needs the other direction as well:
  \<open>toUpperCase_char\<close> maps \<^verbatim>\<open>a\<close> to \<^verbatim>\<open>z\<close> to \<^verbatim>\<open>A\<close> to \<^verbatim>\<open>Z\<close>, and
  \<open>case_variants t\<close> lists every string obtained from \<open>t\<close> by choosing, letter by
  letter, the lower-case or the upper-case form. Neither is part of the program.
\<close>

definition toUpperCase_char :: "char \<Rightarrow> char" where
  "toUpperCase_char c =
     (let n = (of_char c :: nat) in if 97 \<le> n \<and> n \<le> 122 then char_of (n - 32) else c)"

fun case_variants :: "string \<Rightarrow> string list" where
  "case_variants [] = [[]]"
| "case_variants (c # cs) =
     concat (map (\<lambda>r. [toLowerCase_char c # r, toUpperCase_char c # r]) (case_variants cs))"

section \<open>SpeedMapper: \<^verbatim>\<open>FanSpeedFan.percentageToFanSpeed\<close> and \<^verbatim>\<open>FanSpeedFan.fanSpeedToPercentage\<close>\<close>

text \<open>
  A JavaScript number is modelled as a real: the two functions only compare a number
  with the constants 0, 20, 40, 60 and 80 and return one of six constants, so every
  finite number behaves as the real it denotes.
\<close>

definition percentageToFanSpeed :: "real \<Rightarrow> string" where
  "percentageToFanSpeed percentage =
     (if percentage = 0 then ''Auto''
      else if percentage \<le> 20 then ''One''
      else if percentage \<le> 40 then ''Two''
      else if percentage \<le> 60 then ''Three''
      else if percentage \<le> 80 then ''Four''
      else ''Five'')"

definition fanSpeedToPercentage :: "string \<Rightarrow> real" where
  "fanSpeedToPercentage fanSpeed =
     (let normalizedSpeed = toLowerCase fanSpeed in
      if normalizedSpeed = ''auto'' \<or> normalizedSpeed = ''0'' then 0
      else if normalizedSpeed = ''one'' \<or> normalizedSpeed = ''1'' then 20
      else if normalizedSpeed = ''two'' \<or> normalizedSpeed = ''2'' then 40
      else if normalizedSpeed = ''three'' \<or> normalizedSpeed = ''3'' then 60
      else if normalizedSpeed = ''four'' \<or> normalizedSpeed = ''4'' then 80
      else if normalizedSpeed = ''five'' \<or> normalizedSpeed = ''5'' then 100
      else 0)"

text \<open>
  The level domain of the specification, for stating the claims: the six levels in
  their order, the name \<^verbatim>\<open>percentageToFanSpeed\<close> returns for each, and the
  numeric-string alias of each.
\<close>

datatype SpeedLevel = Auto | One | Two | Three | Four | Five

fun ordinal :: "SpeedLevel \<Rightarrow> nat" where
  "ordinal Auto = 0"
| "ordinal One = 1"
| "ordinal Two = 2"
| "ordinal Three = 3"
| "ordinal Four = 4"
| "ordinal Five = 5"

fun level_name :: "SpeedLevel \<Rightarrow> string" where
  "level_name Auto = ''Auto''"
| "level_name One = ''One''"
| "level_name Two = ''Two''"
| "level_name Three = ''Three''"
| "level_name Four = ''Four''"
| "level_name Five = ''Five''"

fun numeric_alias :: "SpeedLevel \<Rightarrow> string" where
  "numeric_alias Auto = ''0''"
| "numeric_alias One = ''1''"
| "numeric_alias Two = ''2''"
| "numeric_alias Three = ''3''"
| "numeric_alias Four = ''4''"
| "numeric_alias Five = ''5''"

section \<open>VaneModeNormalizer: \<^verbatim>\<open>SwingFan.normalizeVane\<close>\<close>

definition normalizeVane :: "string \<Rightarrow> string" where
  "normalizeVane vane =
     (let normalized = toLowerCase vane in
      if normalized = ''0'' \<or> normalized = ''auto'' then ''auto''
      else if normalized = ''6'' \<or> normalized = ''six'' \<or> normalized = ''7''
              \<or> normalized = ''swing'' then ''swing''
      else normalized)"

section \<open>Settings records and the device\<close>

text \<open>
  A device carries its settings as a flat sequence of \<^verbatim>\<open>{name, value}\<close> entries
  (\<^verbatim>\<open>AirToAirUnit.settings\<close>).
\<close>

record setting =
  name :: string
  value' :: string

record AirToAirUnit =
  id' :: string
  givenDisplayName :: string
  connectedInterfaceIdentifier :: string
  settings :: "setting list"

text \<open>
  Modelled from the spec: \<^verbatim>\<open>MELCloudAPI.parseSettings\<close> (file \<^verbatim>\<open>melcloud-api.ts\<close>) is
  not among the sources. The specification describes it as the codec that turns the flat
  settings record into a mapping of field name to string value, the flat list being
  read by linear lookup. A field with no entry reads as \<^verbatim>\<open>undefined\<close>, which is
  \<open>None\<close> here.
\<close>

definition parseSettings :: "setting list \<Rightarrow> (string \<rightharpoonup> string)" where
  "parseSettings ss = map_of (map (\<lambda>s. (name s, value' s)) ss)"

section \<open>The bridge and the remote service\<close>

text \<open>
  A characteristic value of the bridge is a primitive or \<^verbatim>\<open>null\<close>; \<^verbatim>\<open>===\<close> and
  \<^verbatim>\<open>!==\<close> on such values are equality and inequality of this datatype.
  \<^verbatim>\<open>Characteristic.Active.ACTIVE\<close> is the number 1 and \<^verbatim>\<open>INACTIVE\<close> the number 0.
\<close>

datatype CharacteristicValue =
  NumberValue real | StringValue string | BooleanValue bool | NullValue

definition ACTIVE :: CharacteristicValue where
  "ACTIVE = NumberValue 1"

definition INACTIVE :: CharacteristicValue where
  "INACTIVE = NumberValue 0"

datatype Characteristic = Active | RotationSpeed

text \<open>
  The argument object of \<^verbatim>\<open>controlDevice\<close>. A field copied from the parsed settings
  is \<open>None\<close> when the setting is absent. \<^verbatim>\<open>Number.parseFloat\<close> is the runtime's own
  and is kept symbolic: the field holds its argument. The two fields that are always
  \<^verbatim>\<open>null\<close> hold \<open>None\<close>.
\<close>

datatype js_number = Number_parseFloat "string option"

record command =
  power :: bool
  operationMode :: "string option"
  setFanSpeed :: "string option"
  vaneHorizontalDirection :: "string option"
  vaneVerticalDirection :: "string option"
  setTemperature :: js_number
  temperatureIncrementOverride :: "real option"
  inStandbyMode :: "bool option"

text \<open>
  The remote service is a parameter: \<open>api i c\<close> is \<open>None\<close> when
  \<^verbatim>\<open>controlDevice(i, c)\<close> resolves and \<open>Some e\<close> when it rejects with the error \<open>e\<close>.
\<close>

type_synonym 'e remote = "string \<Rightarrow> command \<Rightarrow> 'e option"

datatype HAPStatus =
  SUCCESS | INSUFFICIENT_PRIVILEGES | SERVICE_COMMUNICATION_FAILURE | RESOURCE_BUSY
  | READ_ONLY_CHARACTERISTIC | OPERATION_TIMED_OUT | INVALID_VALUE_IN_REQUEST

datatype js_error = TypeError | HapStatusError HAPStatus

text \<open>
  The state of one accessory object (a \<^verbatim>\<open>FanSpeedFan\<close> or a \<^verbatim>\<open>SwingFan\<close>) together with
  what it has done to its collaborators:
  \<^item> \<open>device\<close> is \<^verbatim>\<open>this.device\<close>; \<^verbatim>\<open>this.accessory.context.device\<close> is the same
    object from the constructor on (both are assigned together), so one field stands
    for both;
  \<^item> \<open>service\<close> gives the current \<^verbatim>\<open>value\<close> of each characteristic of the Fanv2
    service;
  \<^item> \<open>published\<close> lists the \<^verbatim>\<open>updateCharacteristic\<close> calls, oldest first;
  \<^item> \<open>controlled\<close> lists the \<^verbatim>\<open>controlDevice\<close> calls, oldest first;
  \<^item> \<open>refreshes\<close> counts the \<^verbatim>\<open>scheduleRefresh\<close> calls.
  Logging has no effect on any of these and is left out.
\<close>

record accessory =
  device :: AirToAirUnit
  service :: "Characteristic \<Rightarrow> CharacteristicValue"
  published :: "(Characteristic \<times> CharacteristicValue) list"
  controlled :: "(string \<times> command) list"
  refreshes :: nat

definition getSettings :: "accessory \<Rightarrow> (string \<rightharpoonup> string)" where
  "getSettings st = parseSettings (settings (device st))"

text \<open>
  \<^verbatim>\<open>service.updateCharacteristic\<close> belongs to the bridge framework: it stores the value
  as the characteristic's current value and notifies the controllers, which is the
  publish recorded here.
\<close>

definition updateCharacteristic ::
  "Characteristic \<Rightarrow> CharacteristicValue \<Rightarrow> accessory \<Rightarrow> accessory" where
  "updateCharacteristic c v st =
     st\<lparr>service := (service st)(c := v), published := published st @ [(c, v)]\<rparr>"

text \<open>
  Modelled from the spec: \<^verbatim>\<open>platform.scheduleRefresh\<close> (file \<^verbatim>\<open>platform.ts\<close>) is not
  among the sources. The specification describes it as the signal that asks the external
  scheduler for a full authoritative refresh; the model counts the requests.
\<close>

definition scheduleRefresh :: "accessory \<Rightarrow> accessory" where
  "scheduleRefresh st = st\<lparr>refreshes := Suc (refreshes st)\<rparr>"

section \<open>FanSpeedProjection: the class \<^verbatim>\<open>FanSpeedFan\<close>\<close>

text \<open>
  A method returns its result, or the error it throws, together with the state it
  leaves. \<^verbatim>\<open>fanSpeedToPercentage(undefined)\<close> throws a \<^verbatim>\<open>TypeError\<close> at
  \<^verbatim>\<open>toLowerCase\<close>.
\<close>

definition FanSpeedFan_getActive :: "accessory \<Rightarrow> CharacteristicValue" where
  "FanSpeedFan_getActive st =
     (let settings = getSettings st;
          isPowerOn = (settings ''Power'' = Some ''True'');
          fanSpeed = settings ''SetFanSpeed'';
          isAuto = (fanSpeed = Some ''Auto'' \<or> fanSpeed = Some ''0'');
          isActive = (isPowerOn \<and> \<not> isAuto)
      in if isActive then ACTIVE else INACTIVE)"

definition FanSpeedFan_getRotationSpeed :: "accessory \<Rightarrow> js_error + CharacteristicValue" where
  "FanSpeedFan_getRotationSpeed st =
     (let settings = getSettings st;
          fanSpeed = settings ''SetFanSpeed''
      in case fanSpeed of
           None \<Rightarrow> Inl TypeError
         | Some fs \<Rightarrow> Inr (NumberValue (fanSpeedToPercentage fs)))"

definition FanSpeedFan_updateFromDevice ::
  "AirToAirUnit \<Rightarrow> accessory \<Rightarrow> (js_error + unit) \<times> accessory" where
  "FanSpeedFan_updateFromDevice dev st0 =
     (let st = st0\<lparr>device := dev\<rparr>;
          settings = getSettings st;
          isPowerOn = (settings ''Power'' = Some ''True'');
          fanSpeed = settings ''SetFanSpeed'';
          isAuto = (fanSpeed = Some ''Auto'' \<or> fanSpeed = Some ''0'');
          isActive = (isPowerOn \<and> \<not> isAuto)
      in case fanSpeed of
           None \<Rightarrow> (Inl TypeError, st)
         | Some fs \<Rightarrow>
             (let percentage = NumberValue (fanSpeedToPercentage fs);
                  currentActive = service st Active;
                  targetActive = (if isActive then ACTIVE else INACTIVE);
                  st1 = (if targetActive \<noteq> currentActive
                         then updateCharacteristic Active targetActive st else st);
                  currentSpeed = service st1 RotationSpeed;
                  st2 = (if percentage \<noteq> currentSpeed
                         then updateCharacteristic RotationSpeed percentage st1 else st1)
              in (Inr (), st2)))"

text \<open>
  The object literal that \<^verbatim>\<open>setFanSpeed\<close> passes to \<^verbatim>\<open>controlDevice\<close>, as a function
  of the parsed settings and the requested speed.
\<close>

definition FanSpeedFan_command :: "(string \<rightharpoonup> string) \<Rightarrow> string \<Rightarrow> command" where
  "FanSpeedFan_command parsed fanSpeed =
     \<lparr>power = True,
      operationMode = parsed ''OperationMode'',
      setFanSpeed = Some fanSpeed,
      vaneHorizontalDirection = parsed ''VaneHorizontalDirection'',
      vaneVerticalDirection = parsed ''VaneVerticalDirection'',
      setTemperature = Number_parseFloat (parsed ''SetTemperature''),
      temperatureIncrementOverride = None,
      inStandbyMode = None\<rparr>"

text \<open>
  \<^verbatim>\<open>setFanSpeed\<close>: everything after the remote call is inside the \<^verbatim>\<open>try\<close> block, so
  an error thrown by \<^verbatim>\<open>updateFromDevice\<close> is caught and replaced as well.
\<close>

definition FanSpeedFan_setFanSpeed ::
  "'e remote \<Rightarrow> string \<Rightarrow> accessory \<Rightarrow> (js_error + unit) \<times> accessory" where
  "FanSpeedFan_setFanSpeed api fanSpeed st =
     (let settings = getSettings st;
          cmd = FanSpeedFan_command settings fanSpeed;
          st1 = st\<lparr>controlled := controlled st @ [(id' (device st), cmd)]\<rparr>
      in case api (id' (device st)) cmd of
           Some e \<Rightarrow> (Inl (HapStatusError SERVICE_COMMUNICATION_FAILURE), st1)
         | None \<Rightarrow>
             (let updatedSettings =
                    map (\<lambda>setting.
                           if name setting = ''SetFanSpeed'' then setting\<lparr>value' := fanSpeed\<rparr>
                           else if name setting = ''Power'' then setting\<lparr>value' := ''True''\<rparr>
                           else setting)
                        (AirToAirUnit.settings (device st1));
                  st2 = st1\<lparr>device := (device st1)\<lparr>settings := updatedSettings\<rparr>\<rparr>
              in case FanSpeedFan_updateFromDevice (device st2) st2 of
                   (Inl e, st3) \<Rightarrow> (Inl (HapStatusError SERVICE_COMMUNICATION_FAILURE), st3)
                 | (Inr u, st3) \<Rightarrow> (Inr (), scheduleRefresh st3)))"

definition FanSpeedFan_setActive ::
  "'e remote \<Rightarrow> CharacteristicValue \<Rightarrow> accessory \<Rightarrow> (js_error + unit) \<times> accessory" where
  "FanSpeedFan_setActive api v st =
     (let isActive = (v = ACTIVE)
      in if isActive then FanSpeedFan_setFanSpeed api ''Five'' st
         else FanSpeedFan_setFanSpeed api ''Auto'' st)"

text \<open>
  \<^verbatim>\<open>setRotationSpeed\<close> reads its argument \<^verbatim>\<open>as number\<close>; the model takes the number.
\<close>

definition FanSpeedFan_setRotationSpeed ::
  "'e remote \<Rightarrow> real \<Rightarrow> accessory \<Rightarrow> (js_error + unit) \<times> accessory" where
  "FanSpeedFan_setRotationSpeed api percentage st =
     (let fanSpeed = percentageToFanSpeed percentage
      in FanSpeedFan_setFanSpeed api fanSpeed st)"

section \<open>SwingProjection: the class \<^verbatim>\<open>SwingFan\<close>\<close>

text \<open>\<^verbatim>\<open>normalizeVane(undefined)\<close> throws a \<^verbatim>\<open>TypeError\<close> at \<^verbatim>\<open>toLowerCase\<close>.\<close>

definition SwingFan_getActive :: "accessory \<Rightarrow> js_error + CharacteristicValue" where
  "SwingFan_getActive st =
     (let settings = getSettings st;
          isPowerOn = (settings ''Power'' = Some ''True'')
      in case settings ''VaneVerticalDirection'' of
           None \<Rightarrow> Inl TypeError
         | Some vane \<Rightarrow>
             (let vaneMode = normalizeVane vane;
                  isSwing = (vaneMode = ''swing'');
                  isActive = (isPowerOn \<and> isSwing)
              in Inr (if isActive then ACTIVE else INACTIVE)))"

definition SwingFan_updateFromDevice ::
  "AirToAirUnit \<Rightarrow> accessory \<Rightarrow> (js_error + unit) \<times> accessory" where
  "SwingFan_updateFromDevice dev st0 =
     (let st = st0\<lparr>device := dev\<rparr>;
          settings = getSettings st;
          isPowerOn = (settings ''Power'' = Some ''True'')
      in case settings ''VaneVerticalDirection'' of
           None \<Rightarrow> (Inl TypeError, st)
         | Some vane \<Rightarrow>
             (let vaneMode = normalizeVane vane;
                  isSwing = (vaneMode = ''swing'');
                  isActive = (isPowerOn \<and> isSwing);
                  currentActive = service st Active;
                  targetActive = (if isActive then ACTIVE else INACTIVE);
                  st1 = (if targetActive \<noteq> currentActive
                         then updateCharacteristic Active targetActive st else st)
              in (Inr (), st1)))"

text \<open>
  The object literal that \<^verbatim>\<open>setVanePosition\<close> passes to \<^verbatim>\<open>controlDevice\<close>.
\<close>

definition SwingFan_command :: "(string \<rightharpoonup> string) \<Rightarrow> string \<Rightarrow> command" where
  "SwingFan_command parsed vaneDirection =
     \<lparr>power = (parsed ''Power'' = Some ''True''),
      operationMode = parsed ''OperationMode'',
      setFanSpeed = parsed ''SetFanSpeed'',
      vaneHorizontalDirection = parsed ''VaneHorizontalDirection'',
      vaneVerticalDirection = Some vaneDirection,
      setTemperature = Number_parseFloat (parsed ''SetTemperature''),
      temperatureIncrementOverride = None,
      inStandbyMode = None\<rparr>"

definition SwingFan_setVanePosition ::
  "'e remote \<Rightarrow> string \<Rightarrow> accessory \<Rightarrow> (js_error + unit) \<times> accessory" where
  "SwingFan_setVanePosition api vaneDirection st =
     (let settings = getSettings st;
          cmd = SwingFan_command settings vaneDirection;
          st1 = st\<lparr>controlled := controlled st @ [(id' (device st), cmd)]\<rparr>
      in case api (id' (device st)) cmd of
           Some e \<Rightarrow> (Inl (HapStatusError SERVICE_COMMUNICATION_FAILURE), st1)
         | None \<Rightarrow>
             (let updatedSettings =
                    map (\<lambda>setting.
                           if name setting = ''VaneVerticalDirection''
                           then setting\<lparr>value' := vaneDirection\<rparr>
                           else setting)
                        (AirToAirUnit.settings (device st1));
                  st2 = st1\<lparr>device := (device st1)\<lparr>settings := updatedSettings\<rparr>\<rparr>
              in case SwingFan_updateFromDevice (device st2) st2 of
                   (Inl e, st3) \<Rightarrow> (Inl (HapStatusError SERVICE_COMMUNICATION_FAILURE), st3)
                 | (Inr u, st3) \<Rightarrow> (Inr (), scheduleRefresh st3)))"

definition SwingFan_setActive ::
  "'e remote \<Rightarrow> CharacteristicValue \<Rightarrow> accessory \<Rightarrow> (js_error + unit) \<times> accessory" where
  "SwingFan_setActive api v st =
     (let isActive = (v = ACTIVE)
      in if isActive then SwingFan_setVanePosition api ''Swing'' st
         else SwingFan_setVanePosition api ''Auto'' st)"

section \<open>Concrete inputs\<close>

text \<open>
  A device with the six recognised settings, an accessory freshly built on it (no
  characteristic value yet, nothing published, no remote call made), a remote service
  that accepts every command and one that rejects every command.
\<close>

definition example_unit :: "string \<Rightarrow> string \<Rightarrow> string \<Rightarrow> AirToAirUnit" where
  "example_unit p f v =
     \<lparr>id' = ''unit-1'',
      givenDisplayName = ''Living room'',
      connectedInterfaceIdentifier = ''if-1'',
      settings =
        [\<lparr>name = ''Power'', value' = p\<rparr>,
         \<lparr>name = ''OperationMode'', value' = ''Heat''\<rparr>,
         \<lparr>name = ''SetFanSpeed'', value' = f\<rparr>,
         \<lparr>name = ''VaneHorizontalDirection'', value' = ''Auto''\<rparr>,
         \<lparr>name = ''VaneVerticalDirection'', value' = v\<rparr>,
         \<lparr>name = ''SetTemperature'', value' = ''21.5''\<rparr>]\<rparr>"

definition example_accessory :: "string \<Rightarrow> string \<Rightarrow> string \<Rightarrow> accessory" where
  "example_accessory p f v =
     \<lparr>device = example_unit p f v,
      service = (\<lambda>c. NullValue),
      published = [],
      controlled = [],
      refreshes = 0\<rparr>"

definition accepting_remote :: "string remote" where
  "accepting_remote = (\<lambda>i c. None)"

definition rejecting_remote :: "string remote" where
  "rejecting_remote = (\<lambda>i c. Some ''ECONNRESET'')"

section \<open>Lower case and case variants\<close>

lemma of_char_toLowerCase_char:
  "(of_char (toLowerCase_char c) :: nat) =
     (if 65 \<le> (of_char c :: nat) \<and> (of_char c :: nat) \<le> 90 then of_char c + 32 else of_char c)"
  using nat_of_char_less_256[of c] by (auto simp add: toLowerCase_char_def Let_def)

lemma of_char_toUpperCase_char:
  "(of_char (toUpperCase_char c) :: nat) =
     (if 97 \<le> (of_char c :: nat) \<and> (of_char c :: nat) \<le> 122 then of_char c - 32 else of_char c)"
  using nat_of_char_less_256[of c] by (auto simp add: toUpperCase_char_def Let_def)

lemma toLowerCase_char_eq_iff:
  "toLowerCase_char a = toLowerCase_char c \<longleftrightarrow> a = toLowerCase_char c \<or> a = toUpperCase_char c"
proof -
  have "(toLowerCase_char a = toLowerCase_char c) =
        ((of_char (toLowerCase_char a) :: nat) = of_char (toLowerCase_char c))"
    by simp
  moreover have "(a = toLowerCase_char c) = ((of_char a :: nat) = of_char (toLowerCase_char c))"
    by simp
  moreover have "(a = toUpperCase_char c) = ((of_char a :: nat) = of_char (toUpperCase_char c))"
    by simp
  ultimately show ?thesis
    unfolding of_char_toLowerCase_char of_char_toUpperCase_char
    by (simp only: split: if_splits) auto
qed

text \<open>
  Two strings have the same lower-case form exactly when one is a case variant of the
  other.
\<close>

lemma toLowerCase_eq_iff_case_variant:
  "toLowerCase s = toLowerCase t \<longleftrightarrow> s \<in> set (case_variants t)"
proof (induction t arbitrary: s)
  case Nil
  then show ?case by (simp add: toLowerCase_def)
next
  case (Cons c cs)
  show ?case
  proof (cases s)
    case Nil
    then show ?thesis by (auto simp add: toLowerCase_def)
  next
    case (Cons a as)
    have "toLowerCase (a # as) = toLowerCase (c # cs) \<longleftrightarrow>
          toLowerCase_char a = toLowerCase_char c \<and> toLowerCase as = toLowerCase cs"
      by (simp add: toLowerCase_def)
    then show ?thesis
      using Cons Cons.IH[of as] toLowerCase_char_eq_iff[of a c] by auto
  qed
qed

lemma toLowerCase_names:
  "toLowerCase ''Auto'' = ''auto''" "toLowerCase ''One'' = ''one''"
  "toLowerCase ''Two'' = ''two''" "toLowerCase ''Three'' = ''three''"
  "toLowerCase ''Four'' = ''four''" "toLowerCase ''Five'' = ''five''"
  "toLowerCase ''0'' = ''0''" "toLowerCase ''1'' = ''1''" "toLowerCase ''2'' = ''2''"
  "toLowerCase ''3'' = ''3''" "toLowerCase ''4'' = ''4''" "toLowerCase ''5'' = ''5''"
  by (simp_all add: toLowerCase_def toLowerCase_char_def char_of_eq_iff)

section \<open>The speed mapping\<close>

lemma fanSpeedToPercentage_level:
  "toLowerCase s = toLowerCase (level_name l) \<or> toLowerCase s = toLowerCase (numeric_alias l)
   \<Longrightarrow> fanSpeedToPercentage s = 20 * real (ordinal l)"
  by (cases l) (auto simp add: fanSpeedToPercentage_def toLowerCase_names)

lemma fanSpeedToPercentage_other:
  assumes h: "\<forall>l. toLowerCase s \<noteq> toLowerCase (level_name l)
                  \<and> toLowerCase s \<noteq> toLowerCase (numeric_alias l)"
  shows "fanSpeedToPercentage s = 0"
  using h[rule_format, of Auto] h[rule_format, of One] h[rule_format, of Two]
        h[rule_format, of Three] h[rule_format, of Four] h[rule_format, of Five]
  by (simp add: fanSpeedToPercentage_def toLowerCase_names)

lemma fanSpeedToPercentage_values:
  "fanSpeedToPercentage s \<in> {0, 20, 40, 60, 80, 100}"
  by (simp add: fanSpeedToPercentage_def Let_def)

section \<open>Effects of the accessory methods\<close>

lemma parseSettings_map:
  "(\<And>s. s \<in> set ss \<Longrightarrow> name (f s) = name s \<and> (name s = k \<longrightarrow> value' (f s) = value' s))
   \<Longrightarrow> parseSettings (map f ss) k = parseSettings ss k"
  by (induction ss) (auto simp add: parseSettings_def)

lemma FanSpeedFan_updateFromDevice_frame:
  "device (snd (FanSpeedFan_updateFromDevice d st)) = d"
  "controlled (snd (FanSpeedFan_updateFromDevice d st)) = controlled st"
  "refreshes (snd (FanSpeedFan_updateFromDevice d st)) = refreshes st"
  by (simp_all add: FanSpeedFan_updateFromDevice_def updateCharacteristic_def Let_def
        split: option.splits)

lemma SwingFan_updateFromDevice_frame:
  "device (snd (SwingFan_updateFromDevice d st)) = d"
  "controlled (snd (SwingFan_updateFromDevice d st)) = controlled st"
  "refreshes (snd (SwingFan_updateFromDevice d st)) = refreshes st"
  by (simp_all add: SwingFan_updateFromDevice_def updateCharacteristic_def Let_def
        split: option.splits)

text \<open>What the fan's reconciliation pass publishes, appended to the trace.\<close>

lemma FanSpeedFan_updateFromDevice_published:
  "published (snd (FanSpeedFan_updateFromDevice d st)) =
     published st @
       (case parseSettings (settings d) ''SetFanSpeed'' of
          None \<Rightarrow> []
        | Some fs \<Rightarrow>
            (let target = (if parseSettings (settings d) ''Power'' = Some ''True''
                              \<and> fs \<noteq> ''Auto'' \<and> fs \<noteq> ''0'' then ACTIVE else INACTIVE)
             in (if target \<noteq> service st Active then [(Active, target)] else [])
                @ (if NumberValue (fanSpeedToPercentage fs) \<noteq> service st RotationSpeed
                   then [(RotationSpeed, NumberValue (fanSpeedToPercentage fs))] else [])))"
  by (cases "parseSettings (settings d) ''SetFanSpeed''")
     (simp_all add: FanSpeedFan_updateFromDevice_def updateCharacteristic_def getSettings_def
        Let_def)

text \<open>The state a rejected remote call leaves: only the record of the call is new.\<close>

lemma FanSpeedFan_setFanSpeed_rejected:
  "api (id' (device st)) (FanSpeedFan_command (getSettings st) fanSpeed) = Some e \<Longrightarrow>
   FanSpeedFan_setFanSpeed api fanSpeed st =
     (Inl (HapStatusError SERVICE_COMMUNICATION_FAILURE),
      st\<lparr>controlled := controlled st
             @ [(id' (device st), FanSpeedFan_command (getSettings st) fanSpeed)]\<rparr>)"
  by (simp add: FanSpeedFan_setFanSpeed_def Let_def)

lemma SwingFan_setVanePosition_rejected:
  "api (id' (device st)) (SwingFan_command (getSettings st) vaneDirection) = Some e \<Longrightarrow>
   SwingFan_setVanePosition api vaneDirection st =
     (Inl (HapStatusError SERVICE_COMMUNICATION_FAILURE),
      st\<lparr>controlled := controlled st
             @ [(id' (device st), SwingFan_command (getSettings st) vaneDirection)]\<rparr>)"
  by (simp add: SwingFan_setVanePosition_def Let_def)

lemma after_update:
  "device (snd (case p of (Inl e, s) \<Rightarrow> (a, s) | (Inr u, s) \<Rightarrow> (b, scheduleRefresh s)))
     = device (snd p)"
  "controlled (snd (case p of (Inl e, s) \<Rightarrow> (a, s) | (Inr u, s) \<Rightarrow> (b, scheduleRefresh s)))
     = controlled (snd p)"
  by (cases p; cases "fst p"; simp add: scheduleRefresh_def)+

text \<open>The device an accepted remote call leaves.\<close>

lemma FanSpeedFan_setFanSpeed_accepted:
  "api (id' (device st)) (FanSpeedFan_command (getSettings st) fanSpeed) = None \<Longrightarrow>
   device (snd (FanSpeedFan_setFanSpeed api fanSpeed st)) =
     (device st)\<lparr>settings :=
        map (\<lambda>setting.
               if name setting = ''SetFanSpeed'' then setting\<lparr>value' := fanSpeed\<rparr>
               else if name setting = ''Power'' then setting\<lparr>value' := ''True''\<rparr>
               else setting)
            (settings (device st))\<rparr>"
  by (simp add: FanSpeedFan_setFanSpeed_def Let_def after_update
        FanSpeedFan_updateFromDevice_frame)

lemma SwingFan_setVanePosition_accepted:
  "api (id' (device st)) (SwingFan_command (getSettings st) vaneDirection) = None \<Longrightarrow>
   device (snd (SwingFan_setVanePosition api vaneDirection st)) =
     (device st)\<lparr>settings :=
        map (\<lambda>setting.
               if name setting = ''VaneVerticalDirection''
               then setting\<lparr>value' := vaneDirection\<rparr>
               else setting)
            (settings (device st))\<rparr>"
  by (simp add: SwingFan_setVanePosition_def Let_def after_update
        SwingFan_updateFromDevice_frame)

text \<open>Either way exactly one remote call is made, with the command built from the cache.\<close>

lemma FanSpeedFan_setFanSpeed_controlled:
  "controlled (snd (FanSpeedFan_setFanSpeed api fanSpeed st)) =
     controlled st @ [(id' (device st), FanSpeedFan_command (getSettings st) fanSpeed)]"
  by (cases "api (id' (device st)) (FanSpeedFan_command (getSettings st) fanSpeed)")
     (simp_all add: FanSpeedFan_setFanSpeed_def Let_def after_update
        FanSpeedFan_updateFromDevice_frame)

lemma SwingFan_setVanePosition_controlled:
  "controlled (snd (SwingFan_setVanePosition api vaneDirection st)) =
     controlled st @ [(id' (device st), SwingFan_command (getSettings st) vaneDirection)]"
  by (cases "api (id' (device st)) (SwingFan_command (getSettings st) vaneDirection)")
     (simp_all add: SwingFan_setVanePosition_def Let_def after_update
        SwingFan_updateFromDevice_frame)

text \<open>A swing write leaves every parsed field other than the vane direction as it was.\<close>

lemma SwingFan_setVanePosition_getSettings:
  assumes k: "k \<noteq> ''VaneVerticalDirection''"
  shows "getSettings (snd (SwingFan_setVanePosition api vaneDirection st)) k = getSettings st k"
proof (cases "api (id' (device st)) (SwingFan_command (getSettings st) vaneDirection)")
  case None
  have "parseSettings
          (map (\<lambda>setting. if name setting = ''VaneVerticalDirection''
                           then setting\<lparr>value' := vaneDirection\<rparr> else setting)
               (settings (device st))) k
        = parseSettings (settings (device st)) k"
    using k by (intro parseSettings_map) auto
  then show ?thesis
    using SwingFan_setVanePosition_accepted[of api st vaneDirection] None
    by (simp add: getSettings_def)
next
  case (Some e)
  show ?thesis
    using SwingFan_setVanePosition_rejected[of api st vaneDirection e] Some
    by (simp add: getSettings_def)
qed

lemma FanSpeedFan_setFanSpeed_getSettings:
  assumes k: "k \<noteq> ''SetFanSpeed''" "k \<noteq> ''Power''"
  shows "getSettings (snd (FanSpeedFan_setFanSpeed api fanSpeed st)) k = getSettings st k"
proof (cases "api (id' (device st)) (FanSpeedFan_command (getSettings st) fanSpeed)")
  case None
  have "parseSettings
          (map (\<lambda>setting.
                  if name setting = ''SetFanSpeed'' then setting\<lparr>value' := fanSpeed\<rparr>
                  else if name setting = ''Power'' then setting\<lparr>value' := ''True''\<rparr>
                  else setting)
               (settings (device st))) k
        = parseSettings (settings (device st)) k"
    using k by (intro parseSettings_map) auto
  then show ?thesis
    using FanSpeedFan_setFanSpeed_accepted[of api st fanSpeed] None
    by (simp add: getSettings_def)
next
  case (Some e)
  show ?thesis
    using FanSpeedFan_setFanSpeed_rejected[of api st fanSpeed e] Some
    by (simp add: getSettings_def)
qed

section \<open>The claims\<close>

text \<open>
  C6. For every percentage \<open>p\<close> between 0 and 100, \<^verbatim>\<open>percentageToFanSpeed\<close> returns the
  level of the bucket that holds \<open>p\<close>, the buckets being closed above: 0 gives Auto,
  (0, 20] gives One, (20, 40] Two, (40, 60] Three, (60, 80] Four and (80, 100] Five.
  In particular \<^verbatim>\<open>setRotationSpeed(45)\<close> makes exactly one remote call, on the
  accessory's device, whose \<^verbatim>\<open>setFanSpeed\<close> field is \<^verbatim>\<open>Three\<close>.
\<close>

theorem percentageToFanSpeed_buckets:
  "percentageToFanSpeed 0 = ''Auto''
   \<and> (\<forall>p. 0 < p \<and> p \<le> 20 \<longrightarrow> percentageToFanSpeed p = ''One'')
   \<and> (\<forall>p. 20 < p \<and> p \<le> 40 \<longrightarrow> percentageToFanSpeed p = ''Two'')
   \<and> (\<forall>p. 40 < p \<and> p \<le> 60 \<longrightarrow> percentageToFanSpeed p = ''Three'')
   \<and> (\<forall>p. 60 < p \<and> p \<le> 80 \<longrightarrow> percentageToFanSpeed p = ''Four'')
   \<and> (\<forall>p. 80 < p \<and> p \<le> 100 \<longrightarrow> percentageToFanSpeed p = ''Five'')
   \<and> (\<exists>cmd. controlled (snd (FanSpeedFan_setRotationSpeed api 45 st))
                = controlled st @ [(id' (device st), cmd)]
              \<and> setFanSpeed cmd = Some ''Three'')"
proof -
  have buckets: "percentageToFanSpeed 0 = ''Auto''
   \<and> (\<forall>p. 0 < p \<and> p \<le> 20 \<longrightarrow> percentageToFanSpeed p = ''One'')
   \<and> (\<forall>p. 20 < p \<and> p \<le> 40 \<longrightarrow> percentageToFanSpeed p = ''Two'')
   \<and> (\<forall>p. 40 < p \<and> p \<le> 60 \<longrightarrow> percentageToFanSpeed p = ''Three'')
   \<and> (\<forall>p. 60 < p \<and> p \<le> 80 \<longrightarrow> percentageToFanSpeed p = ''Four'')
   \<and> (\<forall>p. 80 < p \<and> p \<le> 100 \<longrightarrow> percentageToFanSpeed p = ''Five'')"
    by (simp add: percentageToFanSpeed_def)
  have "percentageToFanSpeed 45 = ''Three''"
    by (simp add: percentageToFanSpeed_def)
  then have "controlled (snd (FanSpeedFan_setRotationSpeed api 45 st))
               = controlled st
                 @ [(id' (device st), FanSpeedFan_command (getSettings st) ''Three'')]"
    by (simp add: FanSpeedFan_setRotationSpeed_def FanSpeedFan_setFanSpeed_controlled)
  moreover have "setFanSpeed (FanSpeedFan_command (getSettings st) ''Three'') = Some ''Three''"
    by (simp add: FanSpeedFan_command_def)
  ultimately have "\<exists>cmd. controlled (snd (FanSpeedFan_setRotationSpeed api 45 st))
                = controlled st @ [(id' (device st), cmd)]
              \<and> setFanSpeed cmd = Some ''Three''"
    by blast
  with buckets show ?thesis by blast
qed

theorem percentageToFanSpeed_buckets_witness:
  "((0::real) < 10 \<and> (10::real) \<le> 20) \<and> percentageToFanSpeed 10 = ''One''
   \<and> ((20::real) < 40 \<and> (40::real) \<le> 40) \<and> percentageToFanSpeed 40 = ''Two''
   \<and> ((40::real) < 45 \<and> (45::real) \<le> 60) \<and> percentageToFanSpeed 45 = ''Three''
   \<and> ((60::real) < 61 \<and> (61::real) \<le> 80) \<and> percentageToFanSpeed 61 = ''Four''
   \<and> ((80::real) < 100 \<and> (100::real) \<le> 100) \<and> percentageToFanSpeed 100 = ''Five''
   \<and> setFanSpeed (snd (last (controlled (snd (FanSpeedFan_setRotationSpeed accepting_remote 45
          (example_accessory ''False'' ''Auto'' ''Auto'')))))) = Some ''Three''"
proof -
  note t = percentageToFanSpeed_buckets
             [of accepting_remote "example_accessory ''False'' ''Auto'' ''Auto''"]
  have "percentageToFanSpeed 10 = ''One''" using t by simp
  moreover have "percentageToFanSpeed 40 = ''Two''" using t by simp
  moreover have "percentageToFanSpeed 45 = ''Three''" using t by simp
  moreover have "percentageToFanSpeed 61 = ''Four''" using t by simp
  moreover have "percentageToFanSpeed 100 = ''Five''" using t by simp
  moreover have "setFanSpeed (snd (last (controlled (snd (FanSpeedFan_setRotationSpeed
          accepting_remote 45 (example_accessory ''False'' ''Auto'' ''Auto'')))))) = Some ''Three''"
    using t by auto
  ultimately show ?thesis by simp
qed

lemma case_variants_numeric_alias:
  "set (case_variants (numeric_alias l)) = {numeric_alias l}"
  by (cases l) (simp_all add: toLowerCase_char_def toUpperCase_char_def)

text \<open>
  C7. For every level, \<^verbatim>\<open>fanSpeedToPercentage\<close> returns the level's ordinal times 20 on
  every case variant of the level's name and on its numeric-string alias; on every other
  string it returns 0. It is a total function into the numbers: no input raises.
\<close>

theorem fanSpeedToPercentage_case_insensitive:
  "(\<forall>l. \<forall>s \<in> set (case_variants (level_name l)) \<union> {numeric_alias l}.
      fanSpeedToPercentage s = 20 * real (ordinal l))
   \<and> (\<forall>s. (\<forall>l. s \<notin> set (case_variants (level_name l)) \<and> s \<noteq> numeric_alias l)
         \<longrightarrow> fanSpeedToPercentage s = 0)"
proof (intro conjI allI ballI impI)
  fix l s
  assume "s \<in> set (case_variants (level_name l)) \<union> {numeric_alias l}"
  then have "toLowerCase s = toLowerCase (level_name l)
             \<or> toLowerCase s = toLowerCase (numeric_alias l)"
    using case_variants_numeric_alias[of l]
    by (auto simp add: toLowerCase_eq_iff_case_variant)
  then show "fanSpeedToPercentage s = 20 * real (ordinal l)"
    by (rule fanSpeedToPercentage_level)
next
  fix s
  assume h: "\<forall>l. s \<notin> set (case_variants (level_name l)) \<and> s \<noteq> numeric_alias l"
  have "\<forall>l. toLowerCase s \<noteq> toLowerCase (level_name l)
            \<and> toLowerCase s \<noteq> toLowerCase (numeric_alias l)"
  proof (intro allI conjI)
    fix l
    show "toLowerCase s \<noteq> toLowerCase (level_name l)"
      using h by (simp add: toLowerCase_eq_iff_case_variant)
    show "toLowerCase s \<noteq> toLowerCase (numeric_alias l)"
      using h by (simp add: toLowerCase_eq_iff_case_variant case_variants_numeric_alias)
  qed
  then show "fanSpeedToPercentage s = 0"
    by (rule fanSpeedToPercentage_other)
qed

theorem fanSpeedToPercentage_case_insensitive_witness:
  "''tHrEe'' \<in> set (case_variants (level_name Three)) \<union> {numeric_alias Three}
   \<and> fanSpeedToPercentage ''tHrEe'' = 60
   \<and> ''5'' \<in> set (case_variants (level_name Five)) \<union> {numeric_alias Five}
   \<and> fanSpeedToPercentage ''5'' = 100
   \<and> (\<forall>l. ''Six'' \<notin> set (case_variants (level_name l)) \<and> ''Six'' \<noteq> numeric_alias l)
   \<and> fanSpeedToPercentage ''Six'' = 0"
proof -
  have a: "''tHrEe'' \<in> set (case_variants (level_name Three)) \<union> {numeric_alias Three}"
    by code_simp
  have b: "''5'' \<in> set (case_variants (level_name Five)) \<union> {numeric_alias Five}"
    by simp
  have c: "\<forall>l. ''Six'' \<notin> set (case_variants (level_name l)) \<and> ''Six'' \<noteq> numeric_alias l"
  proof
    fix l
    show "''Six'' \<notin> set (case_variants (level_name l)) \<and> ''Six'' \<noteq> numeric_alias l"
      by (cases l;
          simp only: toLowerCase_eq_iff_case_variant[symmetric] level_name.simps
            numeric_alias.simps toLowerCase_names;
          simp add: toLowerCase_def toLowerCase_char_def char_of_eq_iff)
  qed
  note t = fanSpeedToPercentage_case_insensitive
  have "fanSpeedToPercentage ''tHrEe'' = 20 * real (ordinal Three)"
    using t a by blast
  moreover have "fanSpeedToPercentage ''5'' = 20 * real (ordinal Five)"
    using t b by blast
  moreover have "fanSpeedToPercentage ''Six'' = 0"
    using t c by blast
  ultimately show ?thesis using a b c by simp
qed

text \<open>
  C8. \<^verbatim>\<open>normalizeVane\<close> returns \<^verbatim>\<open>auto\<close> exactly when the lower-cased input is
  \<^verbatim>\<open>0\<close> or \<^verbatim>\<open>auto\<close>, \<^verbatim>\<open>swing\<close> exactly when it is \<^verbatim>\<open>6\<close>, \<^verbatim>\<open>six\<close>, \<^verbatim>\<open>7\<close> or
  \<^verbatim>\<open>swing\<close>, and the lower-cased input itself otherwise, which is then neither
  \<^verbatim>\<open>auto\<close> nor \<^verbatim>\<open>swing\<close>.
\<close>

theorem normalizeVane_cases:
  "(normalizeVane v = ''auto'' \<longleftrightarrow> toLowerCase v \<in> {''0'', ''auto''})
   \<and> (normalizeVane v = ''swing'' \<longleftrightarrow> toLowerCase v \<in> {''6'', ''six'', ''7'', ''swing''})
   \<and> (toLowerCase v \<notin> {''0'', ''auto'', ''6'', ''six'', ''7'', ''swing''} \<longrightarrow>
        normalizeVane v = toLowerCase v \<and> normalizeVane v \<noteq> ''auto''
        \<and> normalizeVane v \<noteq> ''swing'')"
  by (auto simp add: normalizeVane_def Let_def)

theorem normalizeVane_cases_witness:
  "toLowerCase ''Three'' \<notin> {''0'', ''auto'', ''6'', ''six'', ''7'', ''swing''}
   \<and> normalizeVane ''Three'' = ''three''
   \<and> toLowerCase ''SIX'' \<in> {''6'', ''six'', ''7'', ''swing''}
   \<and> normalizeVane ''SIX'' = ''swing''
   \<and> toLowerCase ''Auto'' \<in> {''0'', ''auto''}
   \<and> normalizeVane ''Auto'' = ''auto''"
proof -
  have a: "toLowerCase ''Three'' = ''three''" by (rule toLowerCase_names)
  have b: "toLowerCase ''SIX'' = ''six''"
    by (simp add: toLowerCase_def toLowerCase_char_def char_of_eq_iff)
  have c: "toLowerCase ''Auto'' = ''auto''" by (rule toLowerCase_names)
  show ?thesis
    using normalizeVane_cases[of "''Three''"] normalizeVane_cases[of "''SIX''"]
      normalizeVane_cases[of "''Auto''"]
    by (simp add: a b c)
qed

text \<open>
  C9. On each canonical percentage 0, 20, 40, 60, 80, 100, \<^verbatim>\<open>percentageToFanSpeed\<close>
  followed by \<^verbatim>\<open>fanSpeedToPercentage\<close> gives the percentage back; and on [0, 100]
  \<^verbatim>\<open>percentageToFanSpeed\<close> is non-decreasing for the level order
  Auto, One, Two, Three, Four, Five.
\<close>

theorem percentage_roundtrip_and_monotone:
  "(\<forall>p \<in> {0, 20, 40, 60, 80, 100}. fanSpeedToPercentage (percentageToFanSpeed p) = p)
   \<and> (\<forall>p q. 0 \<le> p \<and> p \<le> q \<and> q \<le> 100 \<longrightarrow>
         (\<exists>l m. percentageToFanSpeed p = level_name l \<and> percentageToFanSpeed q = level_name m
                \<and> ordinal l \<le> ordinal m))"
proof (intro conjI allI impI ballI)
  fix p :: real
  assume "p \<in> {0, 20, 40, 60, 80, 100}"
  then show "fanSpeedToPercentage (percentageToFanSpeed p) = p"
    by (auto simp add: percentageToFanSpeed_def fanSpeedToPercentage_def toLowerCase_names)
next
  fix p q :: real
  assume h: "0 \<le> p \<and> p \<le> q \<and> q \<le> 100"
  let ?level = "\<lambda>x::real. if x = 0 then Auto else if x \<le> 20 then One
      else if x \<le> 40 then Two else if x \<le> 60 then Three
      else if x \<le> 80 then Four else Five"
  have "percentageToFanSpeed p = level_name (?level p)"
    by (simp add: percentageToFanSpeed_def)
  moreover have "percentageToFanSpeed q = level_name (?level q)"
    by (simp add: percentageToFanSpeed_def)
  moreover have "ordinal (?level p) \<le> ordinal (?level q)"
    using h by auto
  ultimately show "\<exists>l m. percentageToFanSpeed p = level_name l
      \<and> percentageToFanSpeed q = level_name m \<and> ordinal l \<le> ordinal m"
    by blast
qed

theorem percentage_roundtrip_and_monotone_witness:
  "(60::real) \<in> {0, 20, 40, 60, 80, 100}
   \<and> fanSpeedToPercentage (percentageToFanSpeed 60) = 60
   \<and> ((0::real) \<le> 20 \<and> (20::real) \<le> 21 \<and> (21::real) \<le> 100)
   \<and> (\<exists>l m. percentageToFanSpeed 20 = level_name l \<and> percentageToFanSpeed 21 = level_name m
              \<and> ordinal l \<le> ordinal m)"
proof -
  note t = percentage_roundtrip_and_monotone
  have a: "(60::real) \<in> {0, 20, 40, 60, 80, 100}" by simp
  have b: "(0::real) \<le> 20 \<and> (20::real) \<le> 21 \<and> (21::real) \<le> 100" by simp
  have "fanSpeedToPercentage (percentageToFanSpeed 60) = 60"
    using t a by blast
  moreover have "\<exists>l m. percentageToFanSpeed 20 = level_name l
      \<and> percentageToFanSpeed 21 = level_name m \<and> ordinal l \<le> ordinal m"
    using t b by blast
  ultimately show ?thesis using a b by blast
qed

text \<open>
  C10. \<^verbatim>\<open>fanSpeedToPercentage\<close> returns one of 0, 20, 40, 60, 80, 100 on every
  string. So every value \<^verbatim>\<open>getRotationSpeed\<close> returns is one of these numbers (it
  returns one whenever the SetFanSpeed setting is present), and so is every
  RotationSpeed value that a reconciliation pass publishes.
\<close>

theorem fanSpeedToPercentage_range:
  "fanSpeedToPercentage s \<in> {0, 20, 40, 60, 80, 100}
   \<and> (case FanSpeedFan_getRotationSpeed st of
         Inl e \<Rightarrow> getSettings st ''SetFanSpeed'' = None
       | Inr v \<Rightarrow> getSettings st ''SetFanSpeed'' \<noteq> None
                  \<and> v \<in> NumberValue ` {0, 20, 40, 60, 80, 100})
   \<and> (\<forall>v. (RotationSpeed, v)
              \<in> set (drop (length (published st))
                           (published (snd (FanSpeedFan_updateFromDevice d st))))
          \<longrightarrow> v \<in> NumberValue ` {0, 20, 40, 60, 80, 100})"
proof (intro conjI allI impI)
  show "fanSpeedToPercentage s \<in> {0, 20, 40, 60, 80, 100}"
    by (rule fanSpeedToPercentage_values)
  show "case FanSpeedFan_getRotationSpeed st of
          Inl e \<Rightarrow> getSettings st ''SetFanSpeed'' = None
        | Inr v \<Rightarrow> getSettings st ''SetFanSpeed'' \<noteq> None
                   \<and> v \<in> NumberValue ` {0, 20, 40, 60, 80, 100}"
  proof (cases "getSettings st ''SetFanSpeed''")
    case None
    then show ?thesis by (simp add: FanSpeedFan_getRotationSpeed_def)
  next
    case (Some fs)
    then show ?thesis
      using fanSpeedToPercentage_values[of fs]
      by (simp add: FanSpeedFan_getRotationSpeed_def)
  qed
next
  fix v
  assume v: "(RotationSpeed, v)
              \<in> set (drop (length (published st))
                           (published (snd (FanSpeedFan_updateFromDevice d st))))"
  show "v \<in> NumberValue ` {0, 20, 40, 60, 80, 100}"
  proof (cases "parseSettings (settings d) ''SetFanSpeed''")
    case None
    then show ?thesis
      using v by (simp add: FanSpeedFan_updateFromDevice_published)
  next
    case (Some fs)
    then have "v = NumberValue (fanSpeedToPercentage fs)"
      using v by (simp add: FanSpeedFan_updateFromDevice_published Let_def split: if_splits)
    then show ?thesis
      using fanSpeedToPercentage_values[of fs] by blast
  qed
qed

theorem fanSpeedToPercentage_range_witness:
  "FanSpeedFan_getRotationSpeed (example_accessory ''True'' ''four'' ''Auto'')
     = Inr (NumberValue 80)
   \<and> (RotationSpeed, NumberValue 80)
       \<in> set (drop (length (published (example_accessory ''True'' ''four'' ''Auto'')))
                 (published (snd (FanSpeedFan_updateFromDevice
                    (example_unit ''True'' ''four'' ''Auto'')
                    (example_accessory ''True'' ''four'' ''Auto'')))))
   \<and> NumberValue 80 \<in> NumberValue ` {0, 20, 40, 60, 80, 100}"
proof -
  note t = fanSpeedToPercentage_range [of "''four''" "example_accessory ''True'' ''four'' ''Auto''"
             "example_unit ''True'' ''four'' ''Auto''"]
  have four: "fanSpeedToPercentage ''four'' = 80"
    by (simp add: fanSpeedToPercentage_def toLowerCase_def toLowerCase_char_def)
  have s: "parseSettings (settings (example_unit ''True'' ''four'' ''Auto'')) ''SetFanSpeed''
             = Some ''four''"
    by (simp add: parseSettings_def example_unit_def)
  have a: "FanSpeedFan_getRotationSpeed (example_accessory ''True'' ''four'' ''Auto'')
             = Inr (NumberValue 80)"
    by (simp add: FanSpeedFan_getRotationSpeed_def getSettings_def example_accessory_def s four)
  have b: "(RotationSpeed, NumberValue 80)
       \<in> set (drop (length (published (example_accessory ''True'' ''four'' ''Auto'')))
                 (published (snd (FanSpeedFan_updateFromDevice
                    (example_unit ''True'' ''four'' ''Auto'')
                    (example_accessory ''True'' ''four'' ''Auto'')))))"
    by (simp add: FanSpeedFan_updateFromDevice_published s four Let_def example_accessory_def)
  have "NumberValue 80 \<in> NumberValue ` {0, 20, 40, 60, 80, 100}"
    using t b by blast
  then show ?thesis using a b by blast
qed







text \<open>
  C3. If the remote \<^verbatim>\<open>controlDevice\<close> call is rejected, whatever the error, the write
  (\<^verbatim>\<open>setFanSpeed\<close> on the fan, \<^verbatim>\<open>setVanePosition\<close> on the swing accessory) throws
  the one status error \<^verbatim>\<open>SERVICE_COMMUNICATION_FAILURE\<close>, and the cached device with its
  settings, the characteristic values, the publishes and the refresh requests are what
  they were before the write.
\<close>

theorem remote_failure_keeps_state:
  "(api (id' (device st)) (FanSpeedFan_command (getSettings st) fanSpeed) = Some e \<longrightarrow>
      fst (FanSpeedFan_setFanSpeed api fanSpeed st)
        = Inl (HapStatusError SERVICE_COMMUNICATION_FAILURE)
      \<and> device (snd (FanSpeedFan_setFanSpeed api fanSpeed st)) = device st
      \<and> service (snd (FanSpeedFan_setFanSpeed api fanSpeed st)) = service st
      \<and> published (snd (FanSpeedFan_setFanSpeed api fanSpeed st)) = published st
      \<and> refreshes (snd (FanSpeedFan_setFanSpeed api fanSpeed st)) = refreshes st)
   \<and> (api (id' (device st)) (SwingFan_command (getSettings st) vaneDirection) = Some e' \<longrightarrow>
      fst (SwingFan_setVanePosition api vaneDirection st)
        = Inl (HapStatusError SERVICE_COMMUNICATION_FAILURE)
      \<and> device (snd (SwingFan_setVanePosition api vaneDirection st)) = device st
      \<and> service (snd (SwingFan_setVanePosition api vaneDirection st)) = service st
      \<and> published (snd (SwingFan_setVanePosition api vaneDirection st)) = published st
      \<and> refreshes (snd (SwingFan_setVanePosition api vaneDirection st)) = refreshes st)"
proof (intro conjI impI)
  assume h: "api (id' (device st)) (FanSpeedFan_command (getSettings st) fanSpeed) = Some e"
  note r = FanSpeedFan_setFanSpeed_rejected[of api st fanSpeed e, OF h]
  show "fst (FanSpeedFan_setFanSpeed api fanSpeed st)
          = Inl (HapStatusError SERVICE_COMMUNICATION_FAILURE)"
    by (simp add: r)
  show "device (snd (FanSpeedFan_setFanSpeed api fanSpeed st)) = device st"
    by (simp add: r)
  show "service (snd (FanSpeedFan_setFanSpeed api fanSpeed st)) = service st"
    by (simp add: r)
  show "published (snd (FanSpeedFan_setFanSpeed api fanSpeed st)) = published st"
    by (simp add: r)
  show "refreshes (snd (FanSpeedFan_setFanSpeed api fanSpeed st)) = refreshes st"
    by (simp add: r)
next
  assume h: "api (id' (device st)) (SwingFan_command (getSettings st) vaneDirection) = Some e'"
  note r = SwingFan_setVanePosition_rejected[of api st vaneDirection e', OF h]
  show "fst (SwingFan_setVanePosition api vaneDirection st)
          = Inl (HapStatusError SERVICE_COMMUNICATION_FAILURE)"
    by (simp add: r)
  show "device (snd (SwingFan_setVanePosition api vaneDirection st)) = device st"
    by (simp add: r)
  show "service (snd (SwingFan_setVanePosition api vaneDirection st)) = service st"
    by (simp add: r)
  show "published (snd (SwingFan_setVanePosition api vaneDirection st)) = published st"
    by (simp add: r)
  show "refreshes (snd (SwingFan_setVanePosition api vaneDirection st)) = refreshes st"
    by (simp add: r)
qed

theorem remote_failure_keeps_state_witness:
  "rejecting_remote (id' (device (example_accessory ''False'' ''Auto'' ''Auto'')))
       (FanSpeedFan_command (getSettings (example_accessory ''False'' ''Auto'' ''Auto'')) ''Five'')
     = Some ''ECONNRESET''
   \<and> fst (FanSpeedFan_setFanSpeed rejecting_remote ''Five''
            (example_accessory ''False'' ''Auto'' ''Auto''))
       = Inl (HapStatusError SERVICE_COMMUNICATION_FAILURE)
   \<and> device (snd (FanSpeedFan_setFanSpeed rejecting_remote ''Five''
               (example_accessory ''False'' ''Auto'' ''Auto'')))
       = example_unit ''False'' ''Auto'' ''Auto''
   \<and> rejecting_remote (id' (device (example_accessory ''False'' ''Auto'' ''Auto'')))
       (SwingFan_command (getSettings (example_accessory ''False'' ''Auto'' ''Auto'')) ''Swing'')
     = Some ''ECONNRESET''
   \<and> fst (SwingFan_setVanePosition rejecting_remote ''Swing''
            (example_accessory ''False'' ''Auto'' ''Auto''))
       = Inl (HapStatusError SERVICE_COMMUNICATION_FAILURE)
   \<and> device (snd (SwingFan_setVanePosition rejecting_remote ''Swing''
               (example_accessory ''False'' ''Auto'' ''Auto'')))
       = example_unit ''False'' ''Auto'' ''Auto''"
proof -
  note t = remote_failure_keeps_state
             [of rejecting_remote "example_accessory ''False'' ''Auto'' ''Auto''"
                 "''Five''" "''ECONNRESET''" "''Swing''" "''ECONNRESET''"]
  have a: "rejecting_remote (id' (device (example_accessory ''False'' ''Auto'' ''Auto'')))
       (FanSpeedFan_command (getSettings (example_accessory ''False'' ''Auto'' ''Auto'')) ''Five'')
     = Some ''ECONNRESET''"
    by (simp add: rejecting_remote_def)
  have b: "rejecting_remote (id' (device (example_accessory ''False'' ''Auto'' ''Auto'')))
       (SwingFan_command (getSettings (example_accessory ''False'' ''Auto'' ''Auto'')) ''Swing'')
     = Some ''ECONNRESET''"
    by (simp add: rejecting_remote_def)
  have d: "device (example_accessory ''False'' ''Auto'' ''Auto'')
             = example_unit ''False'' ''Auto'' ''Auto''"
    by (simp add: example_accessory_def)
  show ?thesis using t a b d by simp
qed

text \<open>
  C5. On the swing accessory, \<^verbatim>\<open>setActive\<close> with any value makes exactly one remote call,
  on the accessory's device. The command's \<^verbatim>\<open>power\<close> is true exactly when the cached
  Power setting is \<^verbatim>\<open>True\<close>; its vertical vane direction is \<^verbatim>\<open>Swing\<close> when the value is
  \<^verbatim>\<open>ACTIVE\<close> and \<^verbatim>\<open>Auto\<close> otherwise; every other field is copied from the cached
  settings. Afterwards the cached Power setting is what it was, whether the remote call
  was accepted or not.
\<close>

theorem SwingFan_setActive_preserves_Power:
  "(\<exists>cmd. controlled (snd (SwingFan_setActive api v st))
             = controlled st @ [(id' (device st), cmd)]
           \<and> power cmd = (getSettings st ''Power'' = Some ''True'')
           \<and> vaneVerticalDirection cmd = Some (if v = ACTIVE then ''Swing'' else ''Auto'')
           \<and> operationMode cmd = getSettings st ''OperationMode''
           \<and> setFanSpeed cmd = getSettings st ''SetFanSpeed''
           \<and> vaneHorizontalDirection cmd = getSettings st ''VaneHorizontalDirection''
           \<and> setTemperature cmd = Number_parseFloat (getSettings st ''SetTemperature'')
           \<and> temperatureIncrementOverride cmd = None
           \<and> inStandbyMode cmd = None)
   \<and> getSettings (snd (SwingFan_setActive api v st)) ''Power'' = getSettings st ''Power''"
proof -
  define dir where "dir = (if v = ACTIVE then ''Swing'' else ''Auto'')"
  have run: "SwingFan_setActive api v st = SwingFan_setVanePosition api dir st"
    by (simp add: SwingFan_setActive_def dir_def)
  let ?cmd = "SwingFan_command (getSettings st) dir"
  have "controlled (snd (SwingFan_setActive api v st))
          = controlled st @ [(id' (device st), ?cmd)]"
    by (simp add: run SwingFan_setVanePosition_controlled)
  moreover have "power ?cmd = (getSettings st ''Power'' = Some ''True'')"
    and "vaneVerticalDirection ?cmd = Some (if v = ACTIVE then ''Swing'' else ''Auto'')"
    and "operationMode ?cmd = getSettings st ''OperationMode''"
    and "setFanSpeed ?cmd = getSettings st ''SetFanSpeed''"
    and "vaneHorizontalDirection ?cmd = getSettings st ''VaneHorizontalDirection''"
    and "setTemperature ?cmd = Number_parseFloat (getSettings st ''SetTemperature'')"
    and "temperatureIncrementOverride ?cmd = None"
    and "inStandbyMode ?cmd = None"
    by (simp_all add: SwingFan_command_def dir_def)
  ultimately have sent: "\<exists>cmd. controlled (snd (SwingFan_setActive api v st))
             = controlled st @ [(id' (device st), cmd)]
           \<and> power cmd = (getSettings st ''Power'' = Some ''True'')
           \<and> vaneVerticalDirection cmd = Some (if v = ACTIVE then ''Swing'' else ''Auto'')
           \<and> operationMode cmd = getSettings st ''OperationMode''
           \<and> setFanSpeed cmd = getSettings st ''SetFanSpeed''
           \<and> vaneHorizontalDirection cmd = getSettings st ''VaneHorizontalDirection''
           \<and> setTemperature cmd = Number_parseFloat (getSettings st ''SetTemperature'')
           \<and> temperatureIncrementOverride cmd = None
           \<and> inStandbyMode cmd = None"
    by blast
  have "getSettings (snd (SwingFan_setActive api v st)) ''Power'' = getSettings st ''Power''"
    by (simp add: run SwingFan_setVanePosition_getSettings)
  with sent show ?thesis by blast
qed

theorem SwingFan_setActive_preserves_Power_witness:
  "getSettings (example_accessory ''False'' ''Two'' ''Swing'') ''Power'' = Some ''False''
   \<and> getSettings (snd (SwingFan_setActive accepting_remote INACTIVE
                         (example_accessory ''False'' ''Two'' ''Swing''))) ''Power''
       = Some ''False''
   \<and> power (snd (last (controlled (snd (SwingFan_setActive accepting_remote INACTIVE
                         (example_accessory ''False'' ''Two'' ''Swing''))))))
       = False
   \<and> vaneVerticalDirection (snd (last (controlled (snd (SwingFan_setActive accepting_remote
                         INACTIVE (example_accessory ''False'' ''Two'' ''Swing''))))))
       = Some ''Auto''"
proof -
  note t = SwingFan_setActive_preserves_Power
             [of accepting_remote INACTIVE "example_accessory ''False'' ''Two'' ''Swing''"]
  have p: "getSettings (example_accessory ''False'' ''Two'' ''Swing'') ''Power'' = Some ''False''"
    by (simp add: getSettings_def parseSettings_def example_accessory_def example_unit_def)
  have n: "INACTIVE \<noteq> ACTIVE"
    by (simp add: INACTIVE_def ACTIVE_def)
  show ?thesis using t p n by auto
qed

text \<open>
  C2, as stated, fails on the fan accessory: a successful \<^verbatim>\<open>setFanSpeed\<close> on a device
  whose Power setting is \<^verbatim>\<open>False\<close> rewrites the Power entry to \<^verbatim>\<open>True\<close> besides the
  SetFanSpeed entry.
\<close>

theorem FanSpeedFan_setFanSpeed_changes_Power:
  "fst (FanSpeedFan_setFanSpeed accepting_remote ''Three''
          (example_accessory ''False'' ''Auto'' ''Auto'')) = Inr ()
   \<and> name (settings (device (example_accessory ''False'' ''Auto'' ''Auto'')) ! 0) = ''Power''
   \<and> value' (settings (device (example_accessory ''False'' ''Auto'' ''Auto'')) ! 0) = ''False''
   \<and> value' (settings (device (snd (FanSpeedFan_setFanSpeed accepting_remote ''Three''
          (example_accessory ''False'' ''Auto'' ''Auto'')))) ! 0) = ''True''
   \<and> settings (device (snd (FanSpeedFan_setFanSpeed accepting_remote ''Three''
          (example_accessory ''False'' ''Auto'' ''Auto''))))
       = settings (example_unit ''True'' ''Three'' ''Auto'')"
proof -
  have ok: "accepting_remote (id' (device (example_accessory ''False'' ''Auto'' ''Auto'')))
       (FanSpeedFan_command (getSettings (example_accessory ''False'' ''Auto'' ''Auto''))
          ''Three'') = None"
    by (simp add: accepting_remote_def)
  have new: "settings (device (snd (FanSpeedFan_setFanSpeed accepting_remote ''Three''
          (example_accessory ''False'' ''Auto'' ''Auto''))))
       = settings (example_unit ''True'' ''Three'' ''Auto'')"
    using FanSpeedFan_setFanSpeed_accepted
            [of accepting_remote "example_accessory ''False'' ''Auto'' ''Auto''" "''Three''"] ok
    by (simp add: example_accessory_def example_unit_def)
  have "fst (FanSpeedFan_setFanSpeed accepting_remote ''Three''
          (example_accessory ''False'' ''Auto'' ''Auto'')) = Inr ()"
    by (simp add: FanSpeedFan_setFanSpeed_def FanSpeedFan_updateFromDevice_def Let_def
          accepting_remote_def getSettings_def parseSettings_def example_accessory_def
          example_unit_def)
  then show ?thesis
    by (simp add: new) (simp add: example_accessory_def example_unit_def)
qed

text \<open>
  C2, amended. When the remote call is accepted, the optimistic update builds the new
  settings list entry by entry from the old one: same length, same names in the same
  places. On the fan accessory the value of an entry named SetFanSpeed becomes the speed
  written, the value of an entry named Power becomes \<^verbatim>\<open>True\<close>, and every other value is
  kept. On the swing accessory the value of an entry named VaneVerticalDirection becomes
  the direction written and every other value is kept. The identity fields of the device
  are kept on both.
\<close>

theorem optimistic_update_frame:
  "(api (id' (device st)) (FanSpeedFan_command (getSettings st) fanSpeed) = None \<longrightarrow>
      (let old = settings (device st);
           new = settings (device (snd (FanSpeedFan_setFanSpeed api fanSpeed st)))
       in length new = length old
          \<and> (\<forall>i < length old.
                name (new ! i) = name (old ! i)
                \<and> value' (new ! i) =
                    (if name (old ! i) = ''SetFanSpeed'' then fanSpeed
                     else if name (old ! i) = ''Power'' then ''True''
                     else value' (old ! i))))
      \<and> id' (device (snd (FanSpeedFan_setFanSpeed api fanSpeed st))) = id' (device st)
      \<and> givenDisplayName (device (snd (FanSpeedFan_setFanSpeed api fanSpeed st)))
          = givenDisplayName (device st)
      \<and> connectedInterfaceIdentifier (device (snd (FanSpeedFan_setFanSpeed api fanSpeed st)))
          = connectedInterfaceIdentifier (device st))
   \<and> (api (id' (device st)) (SwingFan_command (getSettings st) vaneDirection) = None \<longrightarrow>
      (let old = settings (device st);
           new = settings (device (snd (SwingFan_setVanePosition api vaneDirection st)))
       in length new = length old
          \<and> (\<forall>i < length old.
                name (new ! i) = name (old ! i)
                \<and> value' (new ! i) =
                    (if name (old ! i) = ''VaneVerticalDirection'' then vaneDirection
                     else value' (old ! i))))
      \<and> id' (device (snd (SwingFan_setVanePosition api vaneDirection st))) = id' (device st)
      \<and> givenDisplayName (device (snd (SwingFan_setVanePosition api vaneDirection st)))
          = givenDisplayName (device st)
      \<and> connectedInterfaceIdentifier (device (snd (SwingFan_setVanePosition api vaneDirection st)))
          = connectedInterfaceIdentifier (device st))"
proof (intro conjI impI)
  assume h: "api (id' (device st)) (FanSpeedFan_command (getSettings st) fanSpeed) = None"
  note d = FanSpeedFan_setFanSpeed_accepted[of api st fanSpeed, OF h]
  show "let old = settings (device st);
            new = settings (device (snd (FanSpeedFan_setFanSpeed api fanSpeed st)))
        in length new = length old
           \<and> (\<forall>i < length old.
                 name (new ! i) = name (old ! i)
                 \<and> value' (new ! i) =
                     (if name (old ! i) = ''SetFanSpeed'' then fanSpeed
                      else if name (old ! i) = ''Power'' then ''True''
                      else value' (old ! i)))"
    by (simp add: d Let_def)
  show "id' (device (snd (FanSpeedFan_setFanSpeed api fanSpeed st))) = id' (device st)"
    by (simp add: d)
  show "givenDisplayName (device (snd (FanSpeedFan_setFanSpeed api fanSpeed st)))
          = givenDisplayName (device st)"
    by (simp add: d)
  show "connectedInterfaceIdentifier (device (snd (FanSpeedFan_setFanSpeed api fanSpeed st)))
          = connectedInterfaceIdentifier (device st)"
    by (simp add: d)
next
  assume h: "api (id' (device st)) (SwingFan_command (getSettings st) vaneDirection) = None"
  note d = SwingFan_setVanePosition_accepted[of api st vaneDirection, OF h]
  show "let old = settings (device st);
            new = settings (device (snd (SwingFan_setVanePosition api vaneDirection st)))
        in length new = length old
           \<and> (\<forall>i < length old.
                 name (new ! i) = name (old ! i)
                 \<and> value' (new ! i) =
                     (if name (old ! i) = ''VaneVerticalDirection'' then vaneDirection
                      else value' (old ! i)))"
    by (simp add: d Let_def)
  show "id' (device (snd (SwingFan_setVanePosition api vaneDirection st))) = id' (device st)"
    by (simp add: d)
  show "givenDisplayName (device (snd (SwingFan_setVanePosition api vaneDirection st)))
          = givenDisplayName (device st)"
    by (simp add: d)
  show "connectedInterfaceIdentifier (device (snd (SwingFan_setVanePosition api vaneDirection st)))
          = connectedInterfaceIdentifier (device st)"
    by (simp add: d)
qed

theorem optimistic_update_frame_witness:
  "accepting_remote (id' (device (example_accessory ''True'' ''One'' ''Auto'')))
       (FanSpeedFan_command (getSettings (example_accessory ''True'' ''One'' ''Auto'')) ''Four'')
     = None
   \<and> (1::nat) < length (settings (device (example_accessory ''True'' ''One'' ''Auto'')))
   \<and> value' (settings (device (snd (FanSpeedFan_setFanSpeed accepting_remote ''Four''
          (example_accessory ''True'' ''One'' ''Auto'')))) ! 1) = ''Heat''
   \<and> (2::nat) < length (settings (device (example_accessory ''True'' ''One'' ''Auto'')))
   \<and> value' (settings (device (snd (FanSpeedFan_setFanSpeed accepting_remote ''Four''
          (example_accessory ''True'' ''One'' ''Auto'')))) ! 2) = ''Four''
   \<and> accepting_remote (id' (device (example_accessory ''True'' ''One'' ''Auto'')))
       (SwingFan_command (getSettings (example_accessory ''True'' ''One'' ''Auto'')) ''Swing'')
     = None
   \<and> value' (settings (device (snd (SwingFan_setVanePosition accepting_remote ''Swing''
          (example_accessory ''True'' ''One'' ''Auto'')))) ! 2) = ''One''
   \<and> (4::nat) < length (settings (device (example_accessory ''True'' ''One'' ''Auto'')))
   \<and> value' (settings (device (snd (SwingFan_setVanePosition accepting_remote ''Swing''
          (example_accessory ''True'' ''One'' ''Auto'')))) ! 4) = ''Swing''"
proof -
  note t = optimistic_update_frame
             [of accepting_remote "example_accessory ''True'' ''One'' ''Auto''"
                 "''Four''" "''Swing''"]
  have a: "accepting_remote (id' (device (example_accessory ''True'' ''One'' ''Auto'')))
       (FanSpeedFan_command (getSettings (example_accessory ''True'' ''One'' ''Auto'')) ''Four'')
     = None"
    by (simp add: accepting_remote_def)
  have b: "accepting_remote (id' (device (example_accessory ''True'' ''One'' ''Auto'')))
       (SwingFan_command (getSettings (example_accessory ''True'' ''One'' ''Auto'')) ''Swing'')
     = None"
    by (simp add: accepting_remote_def)
  have old: "settings (device (example_accessory ''True'' ''One'' ''Auto''))
       = [\<lparr>name = ''Power'', value' = ''True''\<rparr>,
          \<lparr>name = ''OperationMode'', value' = ''Heat''\<rparr>,
          \<lparr>name = ''SetFanSpeed'', value' = ''One''\<rparr>,
          \<lparr>name = ''VaneHorizontalDirection'', value' = ''Auto''\<rparr>,
          \<lparr>name = ''VaneVerticalDirection'', value' = ''Auto''\<rparr>,
          \<lparr>name = ''SetTemperature'', value' = ''21.5''\<rparr>]"
    by (simp add: example_accessory_def example_unit_def)
  from t a have fan: "\<forall>i < length (settings (device (example_accessory ''True'' ''One'' ''Auto''))).
      value' (settings (device (snd (FanSpeedFan_setFanSpeed accepting_remote ''Four''
          (example_accessory ''True'' ''One'' ''Auto'')))) ! i) =
        (if name (settings (device (example_accessory ''True'' ''One'' ''Auto'')) ! i)
              = ''SetFanSpeed'' then ''Four''
         else if name (settings (device (example_accessory ''True'' ''One'' ''Auto'')) ! i)
              = ''Power'' then ''True''
         else value' (settings (device (example_accessory ''True'' ''One'' ''Auto'')) ! i))"
    by (simp add: Let_def)
  from t b have swing: "\<forall>i < length (settings (device (example_accessory ''True'' ''One'' ''Auto''))).
      value' (settings (device (snd (SwingFan_setVanePosition accepting_remote ''Swing''
          (example_accessory ''True'' ''One'' ''Auto'')))) ! i) =
        (if name (settings (device (example_accessory ''True'' ''One'' ''Auto'')) ! i)
              = ''VaneVerticalDirection'' then ''Swing''
         else value' (settings (device (example_accessory ''True'' ''One'' ''Auto'')) ! i))"
    by (simp add: Let_def)
  have l: "length (settings (device (example_accessory ''True'' ''One'' ''Auto''))) = 6"
    by (simp add: old)
  have "value' (settings (device (snd (FanSpeedFan_setFanSpeed accepting_remote ''Four''
          (example_accessory ''True'' ''One'' ''Auto'')))) ! 1) = ''Heat''"
    using fan[rule_format, of 1] by (simp add: old)
  moreover have "value' (settings (device (snd (FanSpeedFan_setFanSpeed accepting_remote ''Four''
          (example_accessory ''True'' ''One'' ''Auto'')))) ! 2) = ''Four''"
    using fan[rule_format, of 2] by (simp add: old)
  moreover have "value' (settings (device (snd (SwingFan_setVanePosition accepting_remote ''Swing''
          (example_accessory ''True'' ''One'' ''Auto'')))) ! 2) = ''One''"
    using swing[rule_format, of 2] by (simp add: old)
  moreover have "value' (settings (device (snd (SwingFan_setVanePosition accepting_remote ''Swing''
          (example_accessory ''True'' ''One'' ''Auto'')))) ! 4) = ''Swing''"
    using swing[rule_format, of 4] by (simp add: old)
  ultimately show ?thesis using a b l by simp
qed

text \<open>
  C1 asks for INACTIVE whenever the speed level read from SetFanSpeed is Auto, the level
  being read without regard to case. \<^verbatim>\<open>getActive\<close> and \<^verbatim>\<open>updateFromDevice\<close> compare
  the raw string with \<^verbatim>\<open>Auto\<close> and \<^verbatim>\<open>0\<close> only. With Power \<^verbatim>\<open>True\<close> and SetFanSpeed
  \<^verbatim>\<open>auto\<close>, \<^verbatim>\<open>fanSpeedToPercentage\<close> reads the level Auto (percentage 0), yet
  \<^verbatim>\<open>getActive\<close> returns ACTIVE and a reconciliation pass publishes ACTIVE together with
  a rotation speed of 0.
\<close>

theorem FanSpeedFan_getActive_lowercase_auto:
  "getSettings (example_accessory ''True'' ''auto'' ''Auto'') ''Power'' = Some ''True''
   \<and> getSettings (example_accessory ''True'' ''auto'' ''Auto'') ''SetFanSpeed'' = Some ''auto''
   \<and> fanSpeedToPercentage ''auto'' = 0
   \<and> FanSpeedFan_getActive (example_accessory ''True'' ''auto'' ''Auto'') = ACTIVE
   \<and> ACTIVE \<noteq> INACTIVE
   \<and> published (snd (FanSpeedFan_updateFromDevice (example_unit ''True'' ''auto'' ''Auto'')
         (example_accessory ''False'' ''Auto'' ''Auto'')))
       = [(Active, ACTIVE), (RotationSpeed, NumberValue 0)]"
proof -
  have p: "getSettings (example_accessory ''True'' ''auto'' ''Auto'') ''Power'' = Some ''True''"
    by (simp add: getSettings_def parseSettings_def example_accessory_def example_unit_def)
  have f: "getSettings (example_accessory ''True'' ''auto'' ''Auto'') ''SetFanSpeed''
             = Some ''auto''"
    by (simp add: getSettings_def parseSettings_def example_accessory_def example_unit_def)
  have z: "fanSpeedToPercentage ''auto'' = 0"
    by (simp add: fanSpeedToPercentage_def toLowerCase_def toLowerCase_char_def)
  have a: "FanSpeedFan_getActive (example_accessory ''True'' ''auto'' ''Auto'') = ACTIVE"
    by (simp add: FanSpeedFan_getActive_def p f)
  have n: "ACTIVE \<noteq> INACTIVE"
    by (simp add: ACTIVE_def INACTIVE_def)
  have u: "published (snd (FanSpeedFan_updateFromDevice (example_unit ''True'' ''auto'' ''Auto'')
         (example_accessory ''False'' ''Auto'' ''Auto'')))
       = [(Active, ACTIVE), (RotationSpeed, NumberValue 0)]"
    by (simp add: FanSpeedFan_updateFromDevice_published parseSettings_def example_unit_def
          example_accessory_def z ACTIVE_def)
  show ?thesis using p f z a n u by blast
qed

end
